theory Spec2Isabelle
  imports Complex_Main "HOL-Library.AList" "HOL-Library.Char_ord" "HOL-Library.List_Lexorder"
    "HOL-Library.Multiset"
begin

section \<open>The balance aggregation and valuation engine of wallet.service.ts\<close>

subsection \<open>Decimal values\<close>

text \<open>
  Modelled from the spec: the Decimal Arithmetic Layer. wallet.service.ts imports the
  class \<^verbatim>\<open>Decimal\<close> from the package decimal.js, which is not among the sources. Section 4.1
  of the specification describes it as exact base-10 arithmetic with lossless string
  conversion, whose constructor rejects a malformed string. A \<^verbatim>\<open>Decimal\<close> is therefore the
  rational number it denotes, \<^verbatim>\<open>plus\<close>, \<^verbatim>\<open>minus\<close> and \<^verbatim>\<open>times\<close> are the exact operations,
  \<^verbatim>\<open>isZero\<close> is equality with 0, and a field that the service writes with \<^verbatim>\<open>toString()\<close> and
  reads back with \<^verbatim>\<open>new Decimal(...)\<close> is kept as the value it denotes. The significant-digit
  setting of the package, the literals NaN and Infinity and the radix prefixes are outside
  this model.
\<close>

type_synonym Decimal = rat

datatype error = DecimalError string

definition isDigit :: "char \<Rightarrow> bool" where
  "isDigit c = (c \<in> set ''0123456789'')"

definition digitValue :: "char \<Rightarrow> nat" where
  "digitValue c = of_char c - 48"

definition digitsValue :: "string \<Rightarrow> nat" where
  "digitsValue ds = foldl (\<lambda>a c. 10 * a + digitValue c) 0 ds"

definition isExpMark :: "char \<Rightarrow> bool" where
  "isExpMark c = (c = CHR ''e'' \<or> c = CHR ''E'')"

text \<open>The digits of a literal: \<^verbatim>\<open>\d+(\.\d*)?|\.\d+\<close>.\<close>

definition parseMantissa :: "string \<Rightarrow> rat option" where
  "parseMantissa m =
     (let ip = takeWhile isDigit m; rest = dropWhile isDigit m
      in case rest of
           [] \<Rightarrow> if ip = [] then None else Some (of_nat (digitsValue ip))
         | c # fp \<Rightarrow>
             if c = CHR ''.'' \<and> list_all isDigit fp \<and> (ip \<noteq> [] \<or> fp \<noteq> [])
             then Some (of_nat (digitsValue (ip @ fp)) / 10 ^ length fp)
             else None)"

text \<open>The optional exponent of a literal: \<^verbatim>\<open>(e[+-]?\d+)?\<close>.\<close>

definition parseExponent :: "string \<Rightarrow> int option" where
  "parseExponent ex =
     (case ex of
        [] \<Rightarrow> Some 0
      | _ # r \<Rightarrow>
          (let (sg, ds) =
                 (case r of
                    [] \<Rightarrow> (1, r)
                  | c # r' \<Rightarrow>
                      if c = CHR ''-'' then (- 1, r')
                      else if c = CHR ''+'' then (1, r') else (1, r))
           in if ds \<noteq> [] \<and> list_all isDigit ds then Some (sg * int (digitsValue ds))
              else None))"

definition new_Decimal :: "string \<Rightarrow> error + Decimal" where
  "new_Decimal v =
     (let (s, u) =
            (case v of
               [] \<Rightarrow> (1, v)
             | c # r \<Rightarrow>
                 if c = CHR ''-'' then (- 1, r)
                 else if c = CHR ''+'' then (1, r) else (1, v));
          m = takeWhile (\<lambda>c. \<not> isExpMark c) u;
          ex = dropWhile (\<lambda>c. \<not> isExpMark c) u
      in case (parseMantissa m, parseExponent ex) of
           (Some q, Some e) \<Rightarrow>
             Inr (if 0 \<le> e then s * q * 10 ^ nat e else s * q / 10 ^ nat (- e))
         | _ \<Rightarrow> Inl (DecimalError v))"

subsection \<open>JavaScript numbers and operators\<close>

text \<open>
  A number is a rational or NaN. Rounding to the nearest double, the infinities and
  negative zero are not modelled: \<^verbatim>\<open>toNumber()\<close> and the arithmetic operators are exact on
  the finite values.
\<close>

datatype number = Num rat | NaN

definition toNumber :: "Decimal \<Rightarrow> number" where
  "toNumber d = Num d"

fun num_add :: "number \<Rightarrow> number \<Rightarrow> number" where
  "num_add (Num a) (Num b) = Num (a + b)"
| "num_add _ _ = NaN"

fun num_mul :: "number \<Rightarrow> number \<Rightarrow> number" where
  "num_mul (Num a) (Num b) = Num (a * b)"
| "num_mul _ _ = NaN"

text \<open>Division is only applied to the divisor 100 and to a divisor tested positive.\<close>

fun num_div :: "number \<Rightarrow> number \<Rightarrow> number" where
  "num_div (Num a) (Num b) = (if b = 0 then NaN else Num (a / b))"
| "num_div _ _ = NaN"

fun num_gt :: "number \<Rightarrow> number \<Rightarrow> bool" where
  "num_gt (Num a) (Num b) = (b < a)"
| "num_gt _ _ = False"

text \<open>\<^verbatim>\<open>x || d\<close> on a string: the empty string is falsy.\<close>

definition orElse :: "string \<Rightarrow> string \<Rightarrow> string" where
  "orElse x d = (if x = [] then d else x)"

text \<open>\<^verbatim>\<open>x || d\<close> on a nullable string: null and the empty string are falsy.\<close>

definition orElseNull :: "string option \<Rightarrow> string \<Rightarrow> string" where
  "orElseNull x d = (case x of None \<Rightarrow> d | Some s \<Rightarrow> orElse s d)"

text \<open>
  The coercion of an operand of \<^verbatim>\<open>*\<close>, \<^verbatim>\<open>/\<close> and \<^verbatim>\<open>>\<close> to a number: null and the empty
  string become 0, a string that is no numeric literal becomes NaN.
\<close>

definition stringToNumber :: "string \<Rightarrow> number" where
  "stringToNumber s =
     (if s = [] then Num 0
      else case new_Decimal s of Inl _ \<Rightarrow> NaN | Inr d \<Rightarrow> Num d)"

definition nullableToNumber :: "string option \<Rightarrow> number" where
  "nullableToNumber x = (case x of None \<Rightarrow> Num 0 | Some s \<Rightarrow> stringToNumber s)"

subsection \<open>Entities\<close>

datatype BalanceType = Spot | Funding

fun typeString :: "BalanceType \<Rightarrow> string" where
  "typeString Spot = ''spot''"
| "typeString Funding = ''funding''"

record Token =
  tk_symbol :: string
  tk_baseSymbol :: string
  tk_name :: string
  tk_decimals :: nat
  tk_blockchain :: string
  tk_networkVersion :: string
  tk_currentPrice :: "string option"
  tk_changePercent24h :: "string option"

record Wallet =
  w_id :: string
  w_userId :: string
  w_status :: string

record WalletBalance =
  wb_walletId :: string
  wb_balance :: string
  wb_type :: BalanceType
  wb_token :: Token

record Repositories =
  walletRepository :: "Wallet list"
  walletBalanceRepository :: "WalletBalance list"
  tokenRepository :: "Token list"

subsection \<open>processBalancesWithNetworks\<close>

record NetworkBalance =
  nb_blockchain :: string
  nb_networkVersion :: string
  nb_balance :: string
  nb_type :: BalanceType
  nb_usdValue :: Decimal

record CombinedBalance =
  cb_symbol :: string
  cb_baseSymbol :: string
  cb_name :: string
  cb_decimals :: nat
  cb_balance :: Decimal
  cb_usdValue :: Decimal
  cb_type :: BalanceType
  cb_token :: Token
  cb_networks :: "NetworkBalance list"

text \<open>
  The \<^verbatim>\<open>Map<string, any>\<close> of the function is an association list in insertion order:
  \<^verbatim>\<open>set\<close> of a new key appends, and the update of the object that \<^verbatim>\<open>get\<close> returns changes
  the value in place.
\<close>

type_synonym CombinedMap = "(string \<times> CombinedBalance) list"

definition mergeKey :: "WalletBalance \<Rightarrow> string" where
  "mergeKey balance = tk_baseSymbol (wb_token balance) @ ''_'' @ typeString (wb_type balance)"

definition has :: "CombinedMap \<Rightarrow> string \<Rightarrow> bool" where
  "has combinedBalances key = (map_of combinedBalances key \<noteq> None)"

definition networkBalanceOf :: "WalletBalance \<Rightarrow> string \<Rightarrow> Decimal \<Rightarrow> NetworkBalance" where
  "networkBalanceOf balance rawBalance usdValue =
     \<lparr> nb_blockchain = tk_blockchain (wb_token balance),
       nb_networkVersion = tk_networkVersion (wb_token balance),
       nb_balance = rawBalance,
       nb_type = wb_type balance,
       nb_usdValue = usdValue \<rparr>"

definition addNetwork :: "Decimal \<Rightarrow> Decimal \<Rightarrow> NetworkBalance \<Rightarrow> CombinedBalance \<Rightarrow> CombinedBalance" where
  "addNetwork currentBalance usdValue networkBalance existing =
     existing \<lparr> cb_balance := cb_balance existing + currentBalance,
                cb_usdValue := cb_usdValue existing + usdValue,
                cb_networks := cb_networks existing @ [networkBalance] \<rparr>"

definition newCombined :: "WalletBalance \<Rightarrow> Decimal \<Rightarrow> Decimal \<Rightarrow> NetworkBalance \<Rightarrow> CombinedBalance" where
  "newCombined balance currentBalance usdValue networkBalance =
     \<lparr> cb_symbol = tk_symbol (wb_token balance),
       cb_baseSymbol = tk_baseSymbol (wb_token balance),
       cb_name = tk_name (wb_token balance),
       cb_decimals = tk_decimals (wb_token balance),
       cb_balance = currentBalance,
       cb_usdValue = usdValue,
       cb_type = wb_type balance,
       cb_token = wb_token balance,
       cb_networks = [networkBalance] \<rparr>"

text \<open>The body of the \<^verbatim>\<open>forEach\<close> callback; a throwing constructor ends the whole call.\<close>

definition combineBalance :: "WalletBalance \<Rightarrow> CombinedMap \<Rightarrow> error + CombinedMap" where
  "combineBalance balance combinedBalances =
     (let key = mergeKey balance;
          rawBalance = orElse (wb_balance balance) ''0''
      in case new_Decimal rawBalance of
           Inl e \<Rightarrow> Inl e
         | Inr currentBalance \<Rightarrow>
             (case new_Decimal (orElseNull (tk_currentPrice (wb_token balance)) ''0'') of
                Inl e \<Rightarrow> Inl e
              | Inr price \<Rightarrow>
                  (let usdValue = currentBalance * price;
                       networkBalance = networkBalanceOf balance rawBalance usdValue
                   in if has combinedBalances key
                      then Inr (AList.map_entry key
                                  (addNetwork currentBalance usdValue networkBalance)
                                  combinedBalances)
                      else Inr (combinedBalances @
                                  [(key, newCombined balance currentBalance usdValue
                                           networkBalance)]))))"

fun combineAll :: "WalletBalance list \<Rightarrow> CombinedMap \<Rightarrow> error + CombinedMap" where
  "combineAll [] combinedBalances = Inr combinedBalances"
| "combineAll (balance # rest) combinedBalances =
     (case combineBalance balance combinedBalances of
        Inl e \<Rightarrow> Inl e
      | Inr combinedBalances' \<Rightarrow> combineAll rest combinedBalances')"

text \<open>
  Modelled from the spec: \<^verbatim>\<open>String.prototype.localeCompare\<close> is provided by the host;
  section 4.4 of the specification describes the order as ascending lexicographic by symbol.
\<close>

definition localeCompare :: "string \<Rightarrow> string \<Rightarrow> int" where
  "localeCompare a b = (if a < b then - 1 else if a = b then 0 else 1)"

text \<open>
  The comparator handed to \<^verbatim>\<open>sort\<close>. Only the sign of its result is consulted; the sign
  of \<^verbatim>\<open>valueB.minus(valueA).toNumber()\<close> is the sign of the exact difference.
\<close>

definition compareBalances :: "CombinedBalance \<Rightarrow> CombinedBalance \<Rightarrow> int" where
  "compareBalances a b =
     (let valueA = cb_usdValue a; valueB = cb_usdValue b
      in if valueA \<noteq> 0 \<and> valueB \<noteq> 0 then
           (if valueB - valueA < 0 then - 1 else if valueB - valueA = 0 then 0 else 1)
         else if valueA \<noteq> 0 then - 1
         else if valueB \<noteq> 0 then 1
         else localeCompare (cb_symbol a) (cb_symbol b))"

text \<open>
  \<^verbatim>\<open>Array.prototype.sort\<close> is a stable sort: elements that the comparator ranks equal
  keep their order. Insertion from the right gives that order.
\<close>

fun insertSorted :: "('a \<Rightarrow> 'a \<Rightarrow> int) \<Rightarrow> 'a \<Rightarrow> 'a list \<Rightarrow> 'a list" where
  "insertSorted cmp x [] = [x]"
| "insertSorted cmp x (y # ys) =
     (if cmp x y \<le> 0 then x # y # ys else y # insertSorted cmp x ys)"

definition sortWith :: "('a \<Rightarrow> 'a \<Rightarrow> int) \<Rightarrow> 'a list \<Rightarrow> 'a list" where
  "sortWith cmp xs = foldr (insertSorted cmp) xs []"

definition processBalancesWithNetworks :: "WalletBalance list \<Rightarrow> error + CombinedBalance list" where
  "processBalancesWithNetworks balances =
     (case combineAll balances [] of
        Inl e \<Rightarrow> Inl e
      | Inr combinedBalances \<Rightarrow> Inr (sortWith compareBalances (map snd combinedBalances)))"

subsection \<open>calculateTotal\<close>

text \<open>
  The \<^verbatim>\<open>reduce\<close> of calculateTotal, from the running total. Every call passes the default
  price field \<^verbatim>\<open>currentPrice\<close>. The balance of a combined entry was written with
  \<^verbatim>\<open>toString()\<close>, so \<^verbatim>\<open>balance.balance || '0'\<close> is that balance.
\<close>

fun calculateTotalFrom :: "number \<Rightarrow> CombinedBalance list \<Rightarrow> error + number" where
  "calculateTotalFrom sumSoFar [] = Inr sumSoFar"
| "calculateTotalFrom sumSoFar (balance # rest) =
     (let amount = cb_balance balance
      in case new_Decimal (orElseNull (tk_currentPrice (cb_token balance)) ''0'') of
           Inl e \<Rightarrow> Inl e
         | Inr price \<Rightarrow>
             calculateTotalFrom (num_add sumSoFar (toNumber (amount * price))) rest)"

definition calculateTotal :: "CombinedBalance list \<Rightarrow> error + number" where
  "calculateTotal balances = calculateTotalFrom (Num 0) balances"

subsection \<open>getBalances\<close>

record PaginationParams =
  pp_page :: rat
  pp_limit :: rat

record Pagination =
  pg_total :: nat
  pg_page :: rat
  pg_limit :: rat
  pg_totalPages :: "int option"
  pg_hasMore :: bool

text \<open>
  The response object. The fields \<^verbatim>\<open>spotTotal\<close> and \<^verbatim>\<open>fundingTotal\<close> are absent from the
  response for a user without active wallets. \<^verbatim>\<open>totalPages\<close> is \<open>None\<close> where the
  division by the limit has no finite result.
\<close>

record Response =
  r_balances :: "CombinedBalance list"
  r_total :: number
  r_spotTotal :: "number option"
  r_fundingTotal :: "number option"
  r_change24h :: number
  r_changePercent24h :: number
  r_pagination :: Pagination

text \<open>\<^verbatim>\<open>Math.max(1, Math.floor(Number(x)))\<close>\<close>

definition coerce :: "rat \<Rightarrow> int" where
  "coerce x = max 1 (\<lfloor>x\<rfloor>)"

text \<open>
  \<^verbatim>\<open>Array.prototype.slice(start, end)\<close>: an index is truncated towards zero, a negative
  index counts from the end, and both are clamped to the length.
\<close>

definition truncateIndex :: "rat \<Rightarrow> int" where
  "truncateIndex r = (if r < 0 then - \<lfloor>- r\<rfloor> else \<lfloor>r\<rfloor>)"

definition relativeIndex :: "rat \<Rightarrow> nat \<Rightarrow> nat" where
  "relativeIndex r len =
     (let i = truncateIndex r
      in if i < 0 then nat (max (int len + i) 0) else nat (min i (int len)))"

definition slice :: "'a list \<Rightarrow> rat \<Rightarrow> rat \<Rightarrow> 'a list" where
  "slice xs start final =
     (let k = relativeIndex start (length xs);
          f = relativeIndex final (length xs)
      in take (f - k) (drop k xs))"

text \<open>\<^verbatim>\<open>walletRepository.find({ where: { userId, status: 'active' } })\<close>\<close>

definition activeWallets :: "Repositories \<Rightarrow> string \<Rightarrow> Wallet list" where
  "activeWallets db userId =
     filter (\<lambda>w. w_userId w = userId \<and> w_status w = ''active'') (walletRepository db)"

text \<open>
  The query on the balances of these wallets, with their tokens joined; \<^verbatim>\<open>if (type)\<close>
  adds the condition on the type unless the type is absent or empty.
\<close>

definition queryBalances :: "Repositories \<Rightarrow> string \<Rightarrow> string option \<Rightarrow> WalletBalance list" where
  "queryBalances db userId type =
     (let walletIds = map w_id (activeWallets db userId)
      in filter (\<lambda>b. wb_walletId b \<in> set walletIds \<and>
                      (case type of
                         None \<Rightarrow> True
                       | Some t \<Rightarrow> t = [] \<or> typeString (wb_type b) = t))
           (walletBalanceRepository db))"

definition displayBalancesOf :: "bool \<Rightarrow> CombinedBalance list \<Rightarrow> CombinedBalance list" where
  "displayBalancesOf showZeroBalances processedBalances =
     (if showZeroBalances then processedBalances
      else filter (\<lambda>b. \<not> (cb_usdValue b = 0)) processedBalances)"

text \<open>
  The loop over the display balances that accumulates \<^verbatim>\<open>totalChange24h\<close> and
  \<^verbatim>\<open>totalValue\<close>; \<^verbatim>\<open>tokenRepository.findOne({ where: { symbol } })\<close> is the first token of
  the repository with the symbol.
\<close>

fun changeLoop :: "Token list \<Rightarrow> CombinedBalance list \<Rightarrow> number \<times> number \<Rightarrow> number \<times> number" where
  "changeLoop tokens [] acc = acc"
| "changeLoop tokens (balance # rest) (totalChange24h, totalValue) =
     (case find (\<lambda>t. tk_symbol t = cb_symbol balance) tokens of
        None \<Rightarrow> changeLoop tokens rest (totalChange24h, totalValue)
      | Some token \<Rightarrow>
          if num_gt (toNumber (cb_balance balance)) (Num 0) then
            (let currentValue =
                   num_mul (toNumber (cb_balance balance))
                     (nullableToNumber (tk_currentPrice token));
                 tokenChange =
                   num_mul currentValue
                     (num_div (nullableToNumber (tk_changePercent24h token)) (Num 100))
             in changeLoop tokens rest
                  (num_add totalChange24h tokenChange, num_add totalValue currentValue))
          else changeLoop tokens rest (totalChange24h, totalValue))"

definition changePercentOf :: "number \<times> number \<Rightarrow> number" where
  "changePercentOf acc =
     (case acc of
        (totalChange24h, totalValue) \<Rightarrow>
          if num_gt totalValue (Num 0)
          then num_mul (num_div totalChange24h totalValue) (Num 100)
          else Num 0)"

definition getBalances ::
  "Repositories \<Rightarrow> string \<Rightarrow> string option \<Rightarrow> PaginationParams \<Rightarrow> bool \<Rightarrow> error + Response" where
  "getBalances db userId type pagination showZeroBalances =
     (let page = coerce (pp_page pagination);
          limit = coerce (pp_limit pagination);
          wallets = activeWallets db userId
      in if wallets = [] then
           Inr \<lparr> r_balances = [],
                 r_total = Num 0,
                 r_spotTotal = None,
                 r_fundingTotal = None,
                 r_change24h = Num 0,
                 r_changePercent24h = Num 0,
                 r_pagination =
                   \<lparr> pg_total = 0,
                     pg_page = of_int page,
                     pg_limit = of_int limit,
                     pg_totalPages = Some 0,
                     pg_hasMore = False \<rparr> \<rparr>
         else
           (let balances = queryBalances db userId type
            in case processBalancesWithNetworks balances of
                 Inl e \<Rightarrow> Inl e
               | Inr processedBalances \<Rightarrow>
                   (let displayBalances = displayBalancesOf showZeroBalances processedBalances;
                        spotBalances = filter (\<lambda>b. cb_type b = Spot) displayBalances;
                        fundingBalances = filter (\<lambda>b. cb_type b = Funding) displayBalances
                    in case calculateTotal spotBalances of
                         Inl e \<Rightarrow> Inl e
                       | Inr spotTotal \<Rightarrow>
                           (case calculateTotal fundingBalances of
                              Inl e \<Rightarrow> Inl e
                            | Inr fundingTotal \<Rightarrow>
                                (let startIndex = (pp_page pagination - 1) * pp_limit pagination;
                                     paginatedBalances =
                                       slice displayBalances startIndex
                                         (startIndex + pp_limit pagination);
                                     acc = changeLoop (tokenRepository db) displayBalances
                                             (Num 0, Num 0)
                                 in Inr \<lparr> r_balances = paginatedBalances,
                                          r_total = num_add spotTotal fundingTotal,
                                          r_spotTotal = Some spotTotal,
                                          r_fundingTotal = Some fundingTotal,
                                          r_change24h = fst acc,
                                          r_changePercent24h = changePercentOf acc,
                                          r_pagination =
                                            \<lparr> pg_total = length displayBalances,
                                              pg_page = pp_page pagination,
                                              pg_limit = pp_limit pagination,
                                              pg_totalPages =
                                                (if pp_limit pagination = 0 then None
                                                 else Some \<lceil>of_nat (length displayBalances)
                                                              / pp_limit pagination\<rceil>),
                                              pg_hasMore =
                                                (pp_page pagination * pp_limit pagination
                                                   < of_nat (length displayBalances)) \<rparr> \<rparr>)))))"

subsection \<open>Notions used in the statements\<close>

text \<open>
  The two constructor calls of the loop body, the values they yield for a well-formed
  record, the network entry and the two updates of the map that the loop performs for it.
\<close>

definition amountOf :: "WalletBalance \<Rightarrow> error + Decimal" where
  "amountOf balance = new_Decimal (orElse (wb_balance balance) ''0'')"

definition priceOf :: "Token \<Rightarrow> error + Decimal" where
  "priceOf token = new_Decimal (orElseNull (tk_currentPrice token) ''0'')"

definition wellFormed :: "WalletBalance \<Rightarrow> bool" where
  "wellFormed balance = (\<not> isl (amountOf balance) \<and> \<not> isl (priceOf (wb_token balance)))"

definition amountValue :: "WalletBalance \<Rightarrow> Decimal" where
  "amountValue balance = (case amountOf balance of Inl _ \<Rightarrow> 0 | Inr a \<Rightarrow> a)"

definition priceValue :: "Token \<Rightarrow> Decimal" where
  "priceValue token = (case priceOf token of Inl _ \<Rightarrow> 0 | Inr p \<Rightarrow> p)"

definition usdValueOf :: "WalletBalance \<Rightarrow> Decimal" where
  "usdValueOf balance = amountValue balance * priceValue (wb_token balance)"

definition contributionOf :: "WalletBalance \<Rightarrow> NetworkBalance" where
  "contributionOf balance =
     networkBalanceOf balance (orElse (wb_balance balance) ''0'') (usdValueOf balance)"

definition addRecord :: "WalletBalance \<Rightarrow> CombinedBalance \<Rightarrow> CombinedBalance" where
  "addRecord balance =
     addNetwork (amountValue balance) (usdValueOf balance) (contributionOf balance)"

definition firstRecord :: "WalletBalance \<Rightarrow> CombinedBalance" where
  "firstRecord balance =
     newCombined balance (amountValue balance) (usdValueOf balance) (contributionOf balance)"

definition mergeStep :: "WalletBalance \<Rightarrow> CombinedMap \<Rightarrow> CombinedMap" where
  "mergeStep balance combinedBalances =
     (if has combinedBalances (mergeKey balance)
      then AList.map_entry (mergeKey balance) (addRecord balance) combinedBalances
      else combinedBalances @ [(mergeKey balance, firstRecord balance)])"

definition entryFor :: "WalletBalance list \<Rightarrow> CombinedBalance option \<Rightarrow> CombinedBalance option" where
  "entryFor records start =
     (case start of
        Some e \<Rightarrow> Some (fold addRecord records e)
      | None \<Rightarrow>
          (case records of
             [] \<Rightarrow> None
           | b # rest \<Rightarrow> Some (fold addRecord rest (firstRecord b))))"

definition networkAmount :: "NetworkBalance \<Rightarrow> Decimal" where
  "networkAmount n = (case new_Decimal (nb_balance n) of Inl _ \<Rightarrow> 0 | Inr a \<Rightarrow> a)"


definition sameAsset :: "string \<Rightarrow> BalanceType \<Rightarrow> WalletBalance \<Rightarrow> bool" where
  "sameAsset baseSymbol type balance =
     (tk_baseSymbol (wb_token balance) = baseSymbol \<and> wb_type balance = type)"


text \<open>
  The product that calculateTotal adds for an entry, the sums over the entries of one
  balance type, and the condition that the records of one logical asset carry one price.
\<close>

definition entryValue :: "CombinedBalance \<Rightarrow> Decimal" where
  "entryValue balance = cb_balance balance * priceValue (cb_token balance)"

definition typeTotal :: "BalanceType \<Rightarrow> CombinedBalance list \<Rightarrow> Decimal" where
  "typeTotal type displayBalances =
     sum_list (map entryValue (filter (\<lambda>b. cb_type b = type) displayBalances))"



subsection \<open>Sample data\<close>

text \<open>Tether held on two networks, as in the first scenario of the specification.\<close>

definition usdtEthereum :: Token where
  "usdtEthereum = \<lparr> tk_symbol = ''USDT'', tk_baseSymbol = ''USDT'', tk_name = ''Tether USD (ERC20)'',
     tk_decimals = 6, tk_blockchain = ''ethereum'', tk_networkVersion = ''ERC20'',
     tk_currentPrice = Some ''1.00'', tk_changePercent24h = Some ''0.5'' \<rparr>"

definition usdtTron :: Token where
  "usdtTron = \<lparr> tk_symbol = ''USDT'', tk_baseSymbol = ''USDT'', tk_name = ''Tether USD (TRC20)'',
     tk_decimals = 6, tk_blockchain = ''tron'', tk_networkVersion = ''TRC20'',
     tk_currentPrice = Some ''1.00'', tk_changePercent24h = Some ''0.5'' \<rparr>"

definition usdtOnEthereum :: WalletBalance where
  "usdtOnEthereum = \<lparr> wb_walletId = ''w1'', wb_balance = ''100.50'', wb_type = Spot, wb_token = usdtEthereum \<rparr>"

definition usdtOnTron :: WalletBalance where
  "usdtOnTron = \<lparr> wb_walletId = ''w2'', wb_balance = ''50.25'', wb_type = Spot, wb_token = usdtTron \<rparr>"

definition usdtCombined :: CombinedBalance where
  "usdtCombined = \<lparr> cb_symbol = ''USDT'', cb_baseSymbol = ''USDT'', cb_name = ''Tether USD (ERC20)'',
     cb_decimals = 6, cb_balance = 603 / 4, cb_usdValue = 603 / 4, cb_type = Spot,
     cb_token = usdtEthereum,
     cb_networks =
       [\<lparr> nb_blockchain = ''ethereum'', nb_networkVersion = ''ERC20'', nb_balance = ''100.50'',
          nb_type = Spot, nb_usdValue = 201 / 2 \<rparr>,
        \<lparr> nb_blockchain = ''tron'', nb_networkVersion = ''TRC20'', nb_balance = ''50.25'',
          nb_type = Spot, nb_usdValue = 201 / 4 \<rparr>] \<rparr>"


text \<open>A portfolio with two valued assets and two assets of value zero.\<close>

definition bitcoin :: Token where
  "bitcoin = \<lparr> tk_symbol = ''BTC'', tk_baseSymbol = ''BTC'', tk_name = ''Bitcoin'',
     tk_decimals = 8, tk_blockchain = ''bitcoin'', tk_networkVersion = ''NATIVE'',
     tk_currentPrice = Some ''10000'', tk_changePercent24h = Some ''5'' \<rparr>"

definition dogecoin :: Token where
  "dogecoin = \<lparr> tk_symbol = ''DOGE'', tk_baseSymbol = ''DOGE'', tk_name = ''Dogecoin'',
     tk_decimals = 8, tk_blockchain = ''dogecoin'', tk_networkVersion = ''NATIVE'',
     tk_currentPrice = Some ''0.1'', tk_changePercent24h = Some ''1'' \<rparr>"



definition dogeSpot :: WalletBalance where
  "dogeSpot = \<lparr> wb_walletId = ''w1'', wb_balance = ''0'', wb_type = Spot, wb_token = dogecoin \<rparr>"



definition dogeCombined :: CombinedBalance where
  "dogeCombined = \<lparr> cb_symbol = ''DOGE'', cb_baseSymbol = ''DOGE'', cb_name = ''Dogecoin'',
     cb_decimals = 8, cb_balance = 0, cb_usdValue = 0, cb_type = Spot, cb_token = dogecoin,
     cb_networks =
       [\<lparr> nb_blockchain = ''dogecoin'', nb_networkVersion = ''NATIVE'', nb_balance = ''0'',
          nb_type = Spot, nb_usdValue = 0 \<rparr>] \<rparr>"


text \<open>
  The repositories of a user with the two Tether balances and the response to the first
  page, and the repositories and the response of a user without wallets.
\<close>

definition walletOne :: Wallet where
  "walletOne = \<lparr> w_id = ''w1'', w_userId = ''u1'', w_status = ''active'' \<rparr>"

definition walletTwo :: Wallet where
  "walletTwo = \<lparr> w_id = ''w2'', w_userId = ''u1'', w_status = ''active'' \<rparr>"

definition firstPage :: PaginationParams where
  "firstPage = \<lparr> pp_page = 1, pp_limit = 20 \<rparr>"

definition tetherDb :: Repositories where
  "tetherDb = \<lparr> walletRepository = [walletOne, walletTwo],
     walletBalanceRepository = [usdtOnEthereum, usdtOnTron],
     tokenRepository = [usdtEthereum, usdtTron] \<rparr>"

definition tetherResponse :: Response where
  "tetherResponse =
     \<lparr> r_balances = [usdtCombined], r_total = Num (603 / 4), r_spotTotal = Some (Num (603 / 4)),
       r_fundingTotal = Some (Num 0), r_change24h = Num (603 / 800), r_changePercent24h = Num (1 / 2),
       r_pagination = \<lparr> pg_total = 1, pg_page = 1, pg_limit = 20, pg_totalPages = Some 1,
                        pg_hasMore = False \<rparr> \<rparr>"

definition noWalletDb :: Repositories where
  "noWalletDb = \<lparr> walletRepository = [], walletBalanceRepository = [], tokenRepository = [] \<rparr>"

definition noWalletResponse :: Response where
  "noWalletResponse =
     \<lparr> r_balances = [], r_total = Num 0, r_spotTotal = None, r_fundingTotal = None,
       r_change24h = Num 0, r_changePercent24h = Num 0,
       r_pagination = \<lparr> pg_total = 0, pg_page = 1, pg_limit = 20, pg_totalPages = Some 0,
                        pg_hasMore = False \<rparr> \<rparr>"

text \<open>
  The repositories of a user whose only balance is zero, and a request for page -1.
\<close>

definition dogeDb :: Repositories where
  "dogeDb = \<lparr> walletRepository = [walletOne], walletBalanceRepository = [dogeSpot],
     tokenRepository = [dogecoin] \<rparr>"

definition negativePage :: PaginationParams where
  "negativePage = \<lparr> pp_page = - 1, pp_limit = 20 \<rparr>"








text \<open>
  A Bitcoin balance whose amount is no decimal, and one whose amount is the empty string.
\<close>

definition malformedBtc :: WalletBalance where
  "malformedBtc = \<lparr> wb_walletId = ''w1'', wb_balance = ''abc'', wb_type = Spot,
     wb_token = bitcoin \<rparr>"

definition emptyBtc :: WalletBalance where
  "emptyBtc = \<lparr> wb_walletId = ''w1'', wb_balance = '''', wb_type = Spot, wb_token = bitcoin \<rparr>"

definition emptyBtcCombined :: CombinedBalance where
  "emptyBtcCombined = \<lparr> cb_symbol = ''BTC'', cb_baseSymbol = ''BTC'', cb_name = ''Bitcoin'',
     cb_decimals = 8, cb_balance = 0, cb_usdValue = 0, cb_type = Spot, cb_token = bitcoin,
     cb_networks =
       [\<lparr> nb_blockchain = ''bitcoin'', nb_networkVersion = ''NATIVE'', nb_balance = ''0'',
          nb_type = Spot, nb_usdValue = 0 \<rparr>] \<rparr>"

definition malformedDb :: Repositories where
  "malformedDb = \<lparr> walletRepository = [walletOne], walletBalanceRepository = [malformedBtc],
     tokenRepository = [bitcoin] \<rparr>"

definition emptyAmountDb :: Repositories where
  "emptyAmountDb = \<lparr> walletRepository = [walletOne], walletBalanceRepository = [emptyBtc],
     tokenRepository = [bitcoin] \<rparr>"




section \<open>Properties\<close>

subsection \<open>The loop as a fold\<close>

lemma combineBalance_wellFormed:
  "wellFormed b \<Longrightarrow> combineBalance b m = Inr (mergeStep b m)"
  by (auto simp: wellFormed_def combineBalance_def mergeStep_def amountOf_def priceOf_def
      addRecord_def firstRecord_def contributionOf_def usdValueOf_def amountValue_def
      priceValue_def Let_def split: sum.splits)

lemma combineBalance_malformed:
  "\<not> wellFormed b \<Longrightarrow> isl (combineBalance b m)"
  by (auto simp: wellFormed_def combineBalance_def amountOf_def priceOf_def Let_def
      split: sum.splits)

lemma combineAll_wellFormed:
  "\<forall>b\<in>set bs. wellFormed b \<Longrightarrow> combineAll bs m = Inr (fold mergeStep bs m)"
  by (induction bs arbitrary: m) (simp_all add: combineBalance_wellFormed)

lemma combineAll_malformed:
  "\<exists>b\<in>set bs. \<not> wellFormed b \<Longrightarrow> isl (combineAll bs m)"
proof (induction bs arbitrary: m)
  case Nil
  then show ?case by simp
next
  case (Cons b bs)
  show ?case
  proof (cases "wellFormed b")
    case True
    with Cons.prems have "\<exists>b\<in>set bs. \<not> wellFormed b" by auto
    then show ?thesis
      using Cons.IH True by (simp add: combineBalance_wellFormed)
  next
    case False
    then have "isl (combineBalance b m)" by (rule combineBalance_malformed)
    then show ?thesis by (auto simp: isl_def)
  qed
qed

lemma combineAll_Inr_iff:
  "combineAll bs m = Inr m' \<longleftrightarrow> (\<forall>b\<in>set bs. wellFormed b) \<and> m' = fold mergeStep bs m"
proof (cases "\<forall>b\<in>set bs. wellFormed b")
  case True
  then show ?thesis by (auto simp: combineAll_wellFormed)
next
  case False
  then have "isl (combineAll bs m)" by (intro combineAll_malformed) auto
  with False show ?thesis by (auto simp: isl_def)
qed

lemma map_of_mergeStep:
  "map_of (mergeStep b m) k =
     (if mergeKey b = k
      then (case map_of m k of Some e \<Rightarrow> Some (addRecord b e) | None \<Rightarrow> Some (firstRecord b))
      else map_of m k)"
  by (auto simp: mergeStep_def has_def map_of_map_entry map_add_def split: option.splits)

lemma map_of_fold_mergeStep:
  "map_of (fold mergeStep bs m) k = entryFor (filter (\<lambda>b. mergeKey b = k) bs) (map_of m k)"
proof (induction bs arbitrary: m)
  case Nil
  then show ?case by (simp add: entryFor_def split: option.splits)
next
  case (Cons b bs)
  show ?case
    by (simp add: Cons.IH map_of_mergeStep entryFor_def split: option.splits)
qed

lemma distinct_mergeStep:
  "distinct (map fst m) \<Longrightarrow> distinct (map fst (mergeStep b m))"
  by (auto simp: mergeStep_def has_def distinct_map_entry map_of_eq_None_iff)

lemma distinct_fold_mergeStep:
  "distinct (map fst m) \<Longrightarrow> distinct (map fst (fold mergeStep bs m))"
  by (induction bs arbitrary: m) (simp_all add: distinct_mergeStep)

lemma fold_addRecord_balance:
  "cb_balance (fold addRecord bs e) = cb_balance e + sum_list (map amountValue bs)"
  by (induction bs arbitrary: e) (simp_all add: addRecord_def addNetwork_def)

lemma fold_addRecord_usdValue:
  "cb_usdValue (fold addRecord bs e) = cb_usdValue e + sum_list (map usdValueOf bs)"
  by (induction bs arbitrary: e) (simp_all add: addRecord_def addNetwork_def)

lemma fold_addRecord_networks:
  "cb_networks (fold addRecord bs e) = cb_networks e @ map contributionOf bs"
  by (induction bs arbitrary: e) (simp_all add: addRecord_def addNetwork_def)

lemma fold_addRecord_fixed:
  "cb_symbol (fold addRecord bs e) = cb_symbol e"
  "cb_baseSymbol (fold addRecord bs e) = cb_baseSymbol e"
  "cb_name (fold addRecord bs e) = cb_name e"
  "cb_decimals (fold addRecord bs e) = cb_decimals e"
  "cb_type (fold addRecord bs e) = cb_type e"
  "cb_token (fold addRecord bs e) = cb_token e"
  by (induction bs arbitrary: e) (simp_all add: addRecord_def addNetwork_def)

lemma mergeKey_eq_iff:
  "mergeKey b1 = mergeKey b2 \<longleftrightarrow>
     tk_baseSymbol (wb_token b1) = tk_baseSymbol (wb_token b2) \<and> wb_type b1 = wb_type b2"
proof -
  have diff: "x @ ''_spot'' \<noteq> y @ ''_funding''" for x y :: string
  proof
    assume "x @ ''_spot'' = y @ ''_funding''"
    then have "last (x @ ''_spot'') = last (y @ ''_funding'')" by simp
    then show False by simp
  qed
  show ?thesis
    using diff [of "tk_baseSymbol (wb_token b1)" "tk_baseSymbol (wb_token b2)"]
      diff [of "tk_baseSymbol (wb_token b2)" "tk_baseSymbol (wb_token b1)"]
    by (cases "wb_type b1"; cases "wb_type b2") (auto simp: mergeKey_def)
qed


lemma mset_insertSorted: "mset (insertSorted cmp x xs) = add_mset x (mset xs)"
  by (induction xs) auto

lemma mset_sortWith: "mset (sortWith cmp xs) = mset xs"
  by (induction xs) (simp_all add: sortWith_def mset_insertSorted)

lemma set_sortWith: "set (sortWith cmp xs) = set xs"
  using mset_sortWith [of cmp xs] by (metis set_mset_mset)








lemma process_Inr_iff:
  "processBalancesWithNetworks bs = Inr out \<longleftrightarrow>
     (\<forall>b\<in>set bs. wellFormed b) \<and>
     out = sortWith compareBalances (map snd (fold mergeStep bs []))"
proof (cases "\<forall>b\<in>set bs. wellFormed b")
  case True
  then show ?thesis
    by (auto simp: processBalancesWithNetworks_def combineAll_wellFormed)
next
  case False
  then have "isl (combineAll bs [])" by (intro combineAll_malformed) auto
  with False show ?thesis
    by (auto simp: processBalancesWithNetworks_def isl_def)
qed

lemma process_malformed:
  "\<exists>b\<in>set bs. \<not> wellFormed b \<Longrightarrow> isl (processBalancesWithNetworks bs)"
  using process_Inr_iff [of bs] by (cases "processBalancesWithNetworks bs") auto

lemma entry_iff:
  assumes "processBalancesWithNetworks bs = Inr out"
  shows "e \<in> set out \<longleftrightarrow>
     (\<exists>k. entryFor (filter (\<lambda>b. mergeKey b = k) bs) None = Some e)"
proof -
  let ?m = "fold mergeStep bs []"
  have d: "distinct (map fst ?m)" by (rule distinct_fold_mergeStep) simp
  from assms have "set out = snd ` set ?m"
    by (simp add: process_Inr_iff set_sortWith)
  then have "e \<in> set out \<longleftrightarrow> (\<exists>k. (k, e) \<in> set ?m)" by force
  also have "\<dots> \<longleftrightarrow> (\<exists>k. map_of ?m k = Some e)"
    using d by (auto dest: map_of_SomeD)
  also have "\<dots> \<longleftrightarrow> (\<exists>k. entryFor (filter (\<lambda>b. mergeKey b = k) bs) None = Some e)"
    by (simp add: map_of_fold_mergeStep)
  finally show ?thesis .
qed

lemma entryFor_None_Some:
  "entryFor records None = Some e \<longleftrightarrow>
     (\<exists>b rest. records = b # rest \<and> e = fold addRecord rest (firstRecord b))"
  by (auto simp: entryFor_def split: list.splits)

lemma entry_cases:
  assumes "processBalancesWithNetworks bs = Inr out" and "e \<in> set out"
  obtains k b rest where "filter (\<lambda>x. mergeKey x = k) bs = b # rest"
    and "e = fold addRecord rest (firstRecord b)"
  using assms entry_iff [OF assms(1)] entryFor_None_Some by blast

lemma entry_of_record:
  assumes "processBalancesWithNetworks bs = Inr out" and "b \<in> set bs"
  obtains e b0 rest where "e \<in> set out"
    and "filter (\<lambda>x. mergeKey x = mergeKey b) bs = b0 # rest"
    and "e = fold addRecord rest (firstRecord b0)"
proof -
  have "b \<in> set (filter (\<lambda>x. mergeKey x = mergeKey b) bs)" using assms(2) by simp
  then obtain b0 rest where f: "filter (\<lambda>x. mergeKey x = mergeKey b) bs = b0 # rest"
    by (cases "filter (\<lambda>x. mergeKey x = mergeKey b) bs") auto
  then have "entryFor (filter (\<lambda>x. mergeKey x = mergeKey b) bs) None
      = Some (fold addRecord rest (firstRecord b0))"
    by (simp add: entryFor_def)
  then have "fold addRecord rest (firstRecord b0) \<in> set out"
    using entry_iff [OF assms(1)] by blast
  with f that show thesis by blast
qed

lemma firstRecord_fields:
  "cb_balance (firstRecord b) = amountValue b"
  "cb_usdValue (firstRecord b) = usdValueOf b"
  "cb_networks (firstRecord b) = [contributionOf b]"
  "cb_symbol (firstRecord b) = tk_symbol (wb_token b)"
  "cb_baseSymbol (firstRecord b) = tk_baseSymbol (wb_token b)"
  "cb_name (firstRecord b) = tk_name (wb_token b)"
  "cb_decimals (firstRecord b) = tk_decimals (wb_token b)"
  "cb_type (firstRecord b) = wb_type b"
  "cb_token (firstRecord b) = wb_token b"
  by (simp_all add: firstRecord_def newCombined_def)

lemma contributionOf_fields:
  "nb_balance (contributionOf b) = orElse (wb_balance b) ''0''"
  "nb_usdValue (contributionOf b) = usdValueOf b"
  "nb_type (contributionOf b) = wb_type b"
  "nb_blockchain (contributionOf b) = tk_blockchain (wb_token b)"
  "nb_networkVersion (contributionOf b) = tk_networkVersion (wb_token b)"
  by (simp_all add: contributionOf_def networkBalanceOf_def)

lemma networkAmount_contributionOf: "networkAmount (contributionOf b) = amountValue b"
  by (simp add: networkAmount_def contributionOf_fields amountValue_def amountOf_def)

lemma wellFormed_contribution:
  "wellFormed b \<Longrightarrow>
     new_Decimal (nb_balance (contributionOf b)) = Inr (networkAmount (contributionOf b))"
  by (cases "amountOf b")
    (auto simp: wellFormed_def networkAmount_def contributionOf_fields amountOf_def)

subsection \<open>The entry of a logical asset\<close>

lemma filter_mergeKey:
  "filter (\<lambda>x. mergeKey x = mergeKey b) bs
     = filter (sameAsset (tk_baseSymbol (wb_token b)) (wb_type b)) bs"
  by (rule filter_cong) (auto simp: mergeKey_eq_iff sameAsset_def)

lemma entry_asset_cases:
  assumes "processBalancesWithNetworks bs = Inr out" and "e \<in> set out"
  obtains b rest where "filter (sameAsset (cb_baseSymbol e) (cb_type e)) bs = b # rest"
    and "e = fold addRecord rest (firstRecord b)"
    and "cb_baseSymbol e = tk_baseSymbol (wb_token b)" and "cb_type e = wb_type b"
proof -
  from assms obtain k b rest where f: "filter (\<lambda>x. mergeKey x = k) bs = b # rest"
    and e: "e = fold addRecord rest (firstRecord b)"
    by (rule entry_cases)
  have "b \<in> set (filter (\<lambda>x. mergeKey x = k) bs)" by (simp add: f)
  then have k: "k = mergeKey b" by simp
  have bs: "cb_baseSymbol e = tk_baseSymbol (wb_token b)" and ty: "cb_type e = wb_type b"
    by (simp_all add: e fold_addRecord_fixed firstRecord_fields)
  have "filter (sameAsset (cb_baseSymbol e) (cb_type e)) bs = b # rest"
    using f unfolding k filter_mergeKey bs ty .
  with e bs ty that show thesis by blast
qed

lemma record_entry:
  assumes "processBalancesWithNetworks bs = Inr out" and "b \<in> set bs"
  obtains e b0 rest where "e \<in> set out"
    and "filter (sameAsset (tk_baseSymbol (wb_token b)) (wb_type b)) bs = b0 # rest"
    and "e = fold addRecord rest (firstRecord b0)"
    and "cb_baseSymbol e = tk_baseSymbol (wb_token b)" and "cb_type e = wb_type b"
proof -
  from assms obtain e b0 rest where e: "e \<in> set out"
    and f: "filter (\<lambda>x. mergeKey x = mergeKey b) bs = b0 # rest"
    and d: "e = fold addRecord rest (firstRecord b0)"
    by (rule entry_of_record)
  have "b0 \<in> set (filter (\<lambda>x. mergeKey x = mergeKey b) bs)" by (simp add: f)
  then have "mergeKey b0 = mergeKey b" by simp
  then have same: "tk_baseSymbol (wb_token b0) = tk_baseSymbol (wb_token b)" "wb_type b0 = wb_type b"
    by (simp_all add: mergeKey_eq_iff)
  have "cb_baseSymbol e = tk_baseSymbol (wb_token b)" "cb_type e = wb_type b"
    by (simp_all add: d fold_addRecord_fixed firstRecord_fields same)
  with e f d that show thesis unfolding filter_mergeKey by blast
qed

lemma entry_networks:
  assumes "processBalancesWithNetworks bs = Inr out" and "e \<in> set out"
  shows "cb_networks e = map contributionOf (filter (sameAsset (cb_baseSymbol e) (cb_type e)) bs)"
    and "cb_balance e = sum_list (map amountValue (filter (sameAsset (cb_baseSymbol e) (cb_type e)) bs))"
    and "cb_usdValue e = sum_list (map usdValueOf (filter (sameAsset (cb_baseSymbol e) (cb_type e)) bs))"
proof -
  from assms obtain b rest where f: "filter (sameAsset (cb_baseSymbol e) (cb_type e)) bs = b # rest"
    and e: "e = fold addRecord rest (firstRecord b)"
    by (rule entry_asset_cases)
  show "cb_networks e = map contributionOf (filter (sameAsset (cb_baseSymbol e) (cb_type e)) bs)"
    unfolding f by (simp add: e fold_addRecord_networks firstRecord_fields)
  show "cb_balance e = sum_list (map amountValue (filter (sameAsset (cb_baseSymbol e) (cb_type e)) bs))"
    unfolding f by (simp add: e fold_addRecord_balance firstRecord_fields)
  show "cb_usdValue e = sum_list (map usdValueOf (filter (sameAsset (cb_baseSymbol e) (cb_type e)) bs))"
    unfolding f by (simp add: e fold_addRecord_usdValue firstRecord_fields)
qed

lemma distinct_assets:
  assumes "processBalancesWithNetworks bs = Inr out"
  shows "distinct (map (\<lambda>e. (cb_baseSymbol e, cb_type e)) out)"
proof -
  let ?m = "fold mergeStep bs []"
  let ?key = "\<lambda>e. cb_baseSymbol e @ ''_'' @ typeString (cb_type e)"
  have d: "distinct (map fst ?m)" by (rule distinct_fold_mergeStep) simp
  have out: "out = sortWith compareBalances (map snd ?m)"
    using assms by (simp add: process_Inr_iff)
  have key: "fst p = ?key (snd p)" if "p \<in> set ?m" for p
  proof -
    obtain k e where p: "p = (k, e)" by (cases p)
    with that d have "map_of ?m k = Some e" by simp
    then have "entryFor (filter (\<lambda>b. mergeKey b = k) bs) None = Some e"
      by (simp add: map_of_fold_mergeStep)
    then obtain b rest where f: "filter (\<lambda>b. mergeKey b = k) bs = b # rest"
      and e: "e = fold addRecord rest (firstRecord b)"
      unfolding entryFor_None_Some by blast
    have "b \<in> set (filter (\<lambda>x. mergeKey x = k) bs)" by (simp add: f)
    then have "k = mergeKey b" by simp
    then show ?thesis
      by (simp add: p e fold_addRecord_fixed firstRecord_fields mergeKey_def)
  qed
  then have "map fst ?m = map ?key (map snd ?m)" by simp
  with d have "distinct (map ?key (map snd ?m))" by simp
  then have "distinct (map ?key out)"
    unfolding out
    by (metis (no_types, lifting) mset_sortWith mset_map mset_eq_imp_distinct_iff)
  then have "distinct (map (\<lambda>p. fst p @ ''_'' @ typeString (snd p))
      (map (\<lambda>e. (cb_baseSymbol e, cb_type e)) out))"
    by (simp add: o_def)
  then show ?thesis
    using distinct_map [of "\<lambda>p. fst p @ ''_'' @ typeString (snd p)"
        "map (\<lambda>e. (cb_baseSymbol e, cb_type e)) out"]
    by blast
qed





subsection \<open>The branches of getBalances\<close>

lemma calculateTotalFrom_priced:
  "\<forall>e\<in>set es. \<not> isl (priceOf (cb_token e)) \<Longrightarrow>
     calculateTotalFrom (Num a) es = Inr (Num (a + sum_list (map entryValue es)))"
proof (induction es arbitrary: a)
  case Nil
  then show ?case by simp
next
  case (Cons e es)
  from Cons.prems obtain p where p: "priceOf (cb_token e) = Inr p"
    by (cases "priceOf (cb_token e)") auto
  then have v: "entryValue e = cb_balance e * p"
    by (simp add: entryValue_def priceValue_def)
  from Cons.prems have "\<forall>e\<in>set es. \<not> isl (priceOf (cb_token e))" by simp
  from Cons.IH [OF this] p v show ?case
    by (simp add: priceOf_def toNumber_def add.assoc)
qed

lemma calculateTotal_priced:
  "\<forall>e\<in>set es. \<not> isl (priceOf (cb_token e)) \<Longrightarrow>
     calculateTotal es = Inr (Num (sum_list (map entryValue es)))"
  using calculateTotalFrom_priced [of es 0] by (simp add: calculateTotal_def)

lemma entry_token_priced:
  assumes "processBalancesWithNetworks bs = Inr out" and "e \<in> set out"
  shows "\<not> isl (priceOf (cb_token e))"
proof -
  from assms obtain b rest where f: "filter (sameAsset (cb_baseSymbol e) (cb_type e)) bs = b # rest"
    and e: "e = fold addRecord rest (firstRecord b)"
    by (rule entry_asset_cases)
  have "b \<in> set (filter (sameAsset (cb_baseSymbol e) (cb_type e)) bs)" by (simp add: f)
  then have "b \<in> set bs" by simp
  with assms(1) have "wellFormed b" by (simp add: process_Inr_iff)
  moreover have "cb_token e = wb_token b" by (simp add: e fold_addRecord_fixed firstRecord_fields)
  ultimately show ?thesis by (simp add: wellFormed_def)
qed

lemma display_subset: "set (displayBalancesOf z processed) \<subseteq> set processed"
  by (auto simp: displayBalancesOf_def)

lemma calculateTotal_display:
  assumes "processBalancesWithNetworks bs = Inr processed"
  shows "calculateTotal (filter (\<lambda>b. cb_type b = ty) (displayBalancesOf z processed))
     = Inr (Num (typeTotal ty (displayBalancesOf z processed)))"
  unfolding typeTotal_def
proof (rule calculateTotal_priced, rule ballI)
  fix e assume "e \<in> set (filter (\<lambda>b. cb_type b = ty) (displayBalancesOf z processed))"
  then have "e \<in> set processed" using display_subset [of z processed] by auto
  with assms show "\<not> isl (priceOf (cb_token e))" by (rule entry_token_priced)
qed

lemma getBalances_empty:
  assumes "activeWallets db userId = []"
  shows "getBalances db userId type pagination showZeroBalances =
     Inr \<lparr> r_balances = [], r_total = Num 0, r_spotTotal = None, r_fundingTotal = None,
           r_change24h = Num 0, r_changePercent24h = Num 0,
           r_pagination =
             \<lparr> pg_total = 0, pg_page = of_int (coerce (pp_page pagination)),
               pg_limit = of_int (coerce (pp_limit pagination)), pg_totalPages = Some 0,
               pg_hasMore = False \<rparr> \<rparr>"
  using assms by (simp add: getBalances_def Let_def)

lemma getBalances_error:
  assumes "activeWallets db userId \<noteq> []"
    and "processBalancesWithNetworks (queryBalances db userId type) = Inl e"
  shows "getBalances db userId type pagination showZeroBalances = Inl e"
  using assms by (simp add: getBalances_def Let_def)

lemma getBalances_success:
  assumes "activeWallets db userId \<noteq> []"
    and "processBalancesWithNetworks (queryBalances db userId type) = Inr processed"
    and "displayBalances = displayBalancesOf showZeroBalances processed"
    and "acc = changeLoop (tokenRepository db) displayBalances (Num 0, Num 0)"
    and "startIndex = (pp_page pagination - 1) * pp_limit pagination"
  shows "getBalances db userId type pagination showZeroBalances =
     Inr \<lparr> r_balances = slice displayBalances startIndex (startIndex + pp_limit pagination),
           r_total = Num (typeTotal Spot displayBalances + typeTotal Funding displayBalances),
           r_spotTotal = Some (Num (typeTotal Spot displayBalances)),
           r_fundingTotal = Some (Num (typeTotal Funding displayBalances)),
           r_change24h = fst acc,
           r_changePercent24h = changePercentOf acc,
           r_pagination =
             \<lparr> pg_total = length displayBalances, pg_page = pp_page pagination,
               pg_limit = pp_limit pagination,
               pg_totalPages =
                 (if pp_limit pagination = 0 then None
                  else Some \<lceil>of_nat (length displayBalances) / pp_limit pagination\<rceil>),
               pg_hasMore =
                 (pp_page pagination * pp_limit pagination < of_nat (length displayBalances)) \<rparr> \<rparr>"
  using assms(1) calculateTotal_display [OF assms(2), of Spot showZeroBalances]
    calculateTotal_display [OF assms(2), of Funding showZeroBalances]
  by (simp add: getBalances_def Let_def assms(2,3,4,5))

lemma getBalances_Inr_cases:
  assumes "getBalances db userId type pagination showZeroBalances = Inr r"
  obtains "activeWallets db userId = []"
  | processed where "activeWallets db userId \<noteq> []"
      and "processBalancesWithNetworks (queryBalances db userId type) = Inr processed"
proof (cases "activeWallets db userId = []")
  case True
  then show ?thesis by (rule that(1))
next
  case False
  show ?thesis
  proof (cases "processBalancesWithNetworks (queryBalances db userId type)")
    case (Inl e)
    with False assms show ?thesis by (simp add: getBalances_error)
  next
    case (Inr processed)
    with False show ?thesis by (rule that(2))
  qed
qed



subsection \<open>Evaluation on the sample data\<close>

lemmas parse_defs = new_Decimal_def parseMantissa_def parseExponent_def isDigit_def
  isExpMark_def digitsValue_def digitValue_def

lemma parse_examples:
  "new_Decimal ''100.50'' = Inr (201 / 2)"
  "new_Decimal ''50.25'' = Inr (201 / 4)"
  "new_Decimal ''1.00'' = Inr 1"
  "new_Decimal ''0'' = Inr 0"
  "new_Decimal ''1'' = Inr 1"
  "new_Decimal ''2'' = Inr 2"
  by (simp_all add: parse_defs)

lemma process_usdt:
  "processBalancesWithNetworks [usdtOnEthereum, usdtOnTron] = Inr [usdtCombined]"
  by (simp add: processBalancesWithNetworks_def combineBalance_def mergeKey_def has_def
      orElse_def orElseNull_def parse_examples networkBalanceOf_def addNetwork_def
      newCombined_def sortWith_def usdtOnEthereum_def usdtOnTron_def usdtEthereum_def
      usdtTron_def usdtCombined_def Let_def compareBalances_def)

lemmas process_defs = processBalancesWithNetworks_def combineBalance_def mergeKey_def has_def
  orElse_def orElseNull_def networkBalanceOf_def addNetwork_def newCombined_def sortWith_def
  compareBalances_def localeCompare_def Let_def


lemma parse_more:
  "new_Decimal ''10000'' = Inr 10000"
  "new_Decimal ''0.1'' = Inr (1 / 10)"
  "new_Decimal ''3'' = Inr 3"
  "new_Decimal ''5'' = Inr 5"
  by (simp_all add: parse_defs)


lemma parse_half: "new_Decimal ''0.5'' = Inr (1 / 2)"
  by (simp add: parse_defs)

lemma tether_wallets: "activeWallets tetherDb ''u1'' = [walletOne, walletTwo]"
  by (simp add: activeWallets_def tetherDb_def walletOne_def walletTwo_def)

lemma tether_query: "queryBalances tetherDb ''u1'' None = [usdtOnEthereum, usdtOnTron]"
  by (simp add: queryBalances_def tether_wallets)
    (simp add: tetherDb_def walletOne_def walletTwo_def usdtOnEthereum_def usdtOnTron_def)

lemma priceOf_usdtEthereum: "priceOf usdtEthereum = Inr 1"
  by (simp add: priceOf_def usdtEthereum_def orElseNull_def orElse_def parse_examples)

lemma priceValue_usdtEthereum: "priceValue usdtEthereum = 1"
  unfolding priceValue_def priceOf_usdtEthereum by simp

lemma ceiling_twentieth: "\<lceil>(1::rat) / 20\<rceil> = 1"
  by (simp add: ceiling_eq_iff)

lemma entryValue_usdtCombined: "entryValue usdtCombined = 603 / 4"
  by (simp add: entryValue_def usdtCombined_def priceValue_usdtEthereum)

lemma tether_change:
  "changeLoop (tokenRepository tetherDb) [usdtCombined] (Num 0, Num 0)
     = (Num (603 / 800), Num (603 / 4))"
  by (simp add: tetherDb_def usdtCombined_def usdtEthereum_def usdtTron_def toNumber_def nullableToNumber_def
      stringToNumber_def parse_examples parse_half)

lemma slice_first_page: "slice [x] 0 20 = [x]"
  by (simp add: slice_def relativeIndex_def truncateIndex_def)

lemma getBalances_tether:
  "getBalances tetherDb ''u1'' None firstPage True = Inr tetherResponse"
proof -
  have w: "activeWallets tetherDb ''u1'' \<noteq> []" by (simp add: tether_wallets)
  have p: "processBalancesWithNetworks (queryBalances tetherDb ''u1'' None) = Inr [usdtCombined]"
    by (simp add: tether_query process_usdt)
  have d: "[usdtCombined] = displayBalancesOf True [usdtCombined]"
    by (simp add: displayBalancesOf_def)
  have t: "cb_type usdtCombined = Spot" by (simp add: usdtCombined_def)
  show ?thesis
    unfolding getBalances_success [OF w p d tether_change [symmetric] refl]
    by (simp add: typeTotal_def t entryValue_usdtCombined changePercentOf_def firstPage_def
        slice_first_page ceiling_twentieth tetherResponse_def)
qed

lemma getBalances_noWallet:
  "getBalances noWalletDb ''u1'' None firstPage True = Inr noWalletResponse"
proof -
  have w: "activeWallets noWalletDb ''u1'' = []" by (simp add: activeWallets_def noWalletDb_def)
  show ?thesis
    unfolding getBalances_empty [OF w]
    by (simp add: firstPage_def coerce_def noWalletResponse_def)
qed

lemma process_doge: "processBalancesWithNetworks [dogeSpot] = Inr [dogeCombined]"
  by (simp add: process_defs parse_examples parse_more dogeSpot_def dogecoin_def dogeCombined_def)

lemma doge_wallets: "activeWallets dogeDb ''u1'' = [walletOne]"
  by (simp add: activeWallets_def dogeDb_def walletOne_def)

lemma doge_query: "queryBalances dogeDb ''u1'' None = [dogeSpot]"
  by (simp add: queryBalances_def doge_wallets) (simp add: dogeDb_def walletOne_def dogeSpot_def)

lemma doge_change:
  "changeLoop (tokenRepository dogeDb) (displayBalancesOf True [dogeCombined]) (Num 0, Num 0)
     = (Num 0, Num 0)"
  by (simp add: dogeDb_def displayBalancesOf_def dogeCombined_def dogecoin_def toNumber_def)

lemma changePercentOf_zero: "snd acc = Num 0 \<Longrightarrow> changePercentOf acc = Num 0"
  by (cases acc) (simp add: changePercentOf_def)

lemma slice_negative_page: "slice [x] (- 40) (- 20) = []"
  by (simp add: slice_def relativeIndex_def truncateIndex_def)













lemma parse_malformed:
  "new_Decimal ''abc'' = Inl (DecimalError ''abc'')"
  "new_Decimal '''' = Inl (DecimalError '''')"
  by (simp_all add: parse_defs)

lemma malformed_wallets: "activeWallets malformedDb ''u1'' = [walletOne]"
  by (simp add: activeWallets_def malformedDb_def walletOne_def)

lemma malformed_query: "queryBalances malformedDb ''u1'' None = [malformedBtc]"
  by (simp add: queryBalances_def malformed_wallets)
    (simp add: malformedDb_def walletOne_def malformedBtc_def)

lemma emptyAmount_wallets: "activeWallets emptyAmountDb ''u1'' = [walletOne]"
  by (simp add: activeWallets_def emptyAmountDb_def walletOne_def)

lemma emptyAmount_query: "queryBalances emptyAmountDb ''u1'' None = [emptyBtc]"
  by (simp add: queryBalances_def emptyAmount_wallets)
    (simp add: emptyAmountDb_def walletOne_def emptyBtc_def)

lemma process_malformedBtc:
  "processBalancesWithNetworks [malformedBtc] = Inl (DecimalError ''abc'')"
  by (simp add: process_defs parse_malformed malformedBtc_def)

lemma process_emptyBtc:
  "processBalancesWithNetworks [emptyBtc] = Inr [emptyBtcCombined]"
  by (simp add: process_defs parse_examples parse_more emptyBtc_def bitcoin_def
      emptyBtcCombined_def)

lemma query_wallets:
  "b \<in> set (queryBalances db userId type) \<Longrightarrow> activeWallets db userId \<noteq> []"
  by (auto simp: queryBalances_def Let_def)

lemma malformed_amount_not_wellFormed:
  assumes "wb_balance b \<noteq> []" and "isl (new_Decimal (wb_balance b))"
  shows "\<not> wellFormed b"
  using assms by (simp add: wellFormed_def amountOf_def orElse_def)

lemma combineBalance_empty_amount:
  "combineBalance (b\<lparr>wb_balance := []\<rparr>) m = combineBalance (b\<lparr>wb_balance := ''0''\<rparr>) m"
  by (auto simp: combineBalance_def mergeKey_def orElse_def networkBalanceOf_def
      newCombined_def Let_def split: sum.splits)









section \<open>The claims\<close>

text \<open>
  C1. In every aggregated entry that processBalancesWithNetworks produces, the amount of
  every network contribution is a well-formed decimal, the total amount is the exact sum
  of the amounts of the network contributions, and the total USD value is the exact sum of
  their USD values.
\<close>

theorem sum_invariant:
  assumes "processBalancesWithNetworks balances = Inr out" and "e \<in> set out"
  shows "(\<forall>n\<in>set (cb_networks e). new_Decimal (nb_balance n) = Inr (networkAmount n)) \<and>
         cb_balance e = sum_list (map networkAmount (cb_networks e)) \<and>
         cb_usdValue e = sum_list (map nb_usdValue (cb_networks e))"
proof -
  from assms obtain k b rest where f: "filter (\<lambda>x. mergeKey x = k) balances = b # rest"
    and e: "e = fold addRecord rest (firstRecord b)"
    by (rule entry_cases)
  have wf: "\<forall>x\<in>set balances. wellFormed x" using assms(1) by (simp add: process_Inr_iff)
  have sub: "set (b # rest) \<subseteq> set balances" using f by (metis filter_is_subset)
  have nets: "cb_networks e = map contributionOf (b # rest)"
    by (simp add: e fold_addRecord_networks firstRecord_fields)
  have "\<forall>n\<in>set (cb_networks e). new_Decimal (nb_balance n) = Inr (networkAmount n)"
    unfolding nets using wf sub by (auto simp: wellFormed_contribution)
  moreover have "cb_balance e = sum_list (map networkAmount (cb_networks e))"
    unfolding nets
    by (simp add: e fold_addRecord_balance firstRecord_fields o_def networkAmount_contributionOf)
  moreover have "cb_usdValue e = sum_list (map nb_usdValue (cb_networks e))"
    unfolding nets
    by (simp add: e fold_addRecord_usdValue firstRecord_fields o_def contributionOf_fields)
  ultimately show ?thesis by blast
qed

theorem sum_invariant_witness:
  "processBalancesWithNetworks [usdtOnEthereum, usdtOnTron] = Inr [usdtCombined] \<and>
   usdtCombined \<in> set [usdtCombined] \<and>
   list_all (\<lambda>n. new_Decimal (nb_balance n) = Inr (networkAmount n))
     (cb_networks usdtCombined) \<and>
   cb_balance usdtCombined = sum_list (map networkAmount (cb_networks usdtCombined)) \<and>
   cb_usdValue usdtCombined = sum_list (map nb_usdValue (cb_networks usdtCombined)) \<and>
   cb_balance usdtCombined = 603 / 4"
proof -
  have m: "usdtCombined \<in> set [usdtCombined]" by simp
  have t: "cb_balance usdtCombined = 603 / 4" by (simp add: usdtCombined_def)
  from sum_invariant [OF process_usdt m] process_usdt m t show ?thesis
    unfolding list_all_iff by blast
qed









text \<open>
  C5. The claim that the page is cut at the coerced page and limit fails on the code: the
  coerced values of lines 251 and 252 are used only in the response for a user without
  wallets, and the slice and the pagination fields use the values as given. For page -1
  and limit 20, which coerce to page 1 and limit 20, the slice over the single Tether entry
  is empty and the response reports page -1, while page 1 yields the entry.
\<close>

theorem pagination_uses_uncoerced_values:
  "coerce (pp_page negativePage) = 1 \<and> coerce (pp_limit negativePage) = 20 \<and>
   map_sum id r_balances (getBalances tetherDb ''u1'' None negativePage True) = Inr [] \<and>
   map_sum id (\<lambda>r. pg_page (r_pagination r)) (getBalances tetherDb ''u1'' None negativePage True)
     = Inr (- 1) \<and>
   map_sum id r_balances
     (getBalances tetherDb ''u1'' None \<lparr> pp_page = 1, pp_limit = 20 \<rparr> True)
     = Inr [usdtCombined]"
proof -
  have w: "activeWallets tetherDb ''u1'' \<noteq> []" by (simp add: tether_wallets)
  have p: "processBalancesWithNetworks (queryBalances tetherDb ''u1'' None) = Inr [usdtCombined]"
    by (simp add: tether_query process_usdt)
  have d: "[usdtCombined] = displayBalancesOf True [usdtCombined]"
    by (simp add: displayBalancesOf_def)
  have c: "coerce (pp_page negativePage) = 1 \<and> coerce (pp_limit negativePage) = 20"
    by (simp add: coerce_def negativePage_def)
  have n: "map_sum id r_balances (getBalances tetherDb ''u1'' None negativePage True) = Inr []"
    unfolding getBalances_success [OF w p d refl refl]
    by (simp add: negativePage_def slice_negative_page)
  have g: "map_sum id (\<lambda>r. pg_page (r_pagination r))
      (getBalances tetherDb ''u1'' None negativePage True) = Inr (- 1)"
    unfolding getBalances_success [OF w p d refl refl]
    by (simp add: negativePage_def)
  have f: "map_sum id r_balances
      (getBalances tetherDb ''u1'' None \<lparr> pp_page = 1, pp_limit = 20 \<rparr> True) = Inr [usdtCombined]"
    using getBalances_tether by (simp add: firstPage_def tetherResponse_def)
  from c n g f show ?thesis by blast
qed

text \<open>
  C6. Whenever the total value that getBalances computes for the change percentage is 0,
  and for a user without active wallets, getBalances returns a response, and its
  changePercent24h is 0.
\<close>

theorem change_percent_zero:
  assumes "activeWallets db userId = [] \<or>
           (processBalancesWithNetworks (queryBalances db userId type) = Inr processed \<and>
            snd (changeLoop (tokenRepository db)
                   (displayBalancesOf showZeroBalances processed) (Num 0, Num 0)) = Num 0)"
  shows "\<exists>r. getBalances db userId type pagination showZeroBalances = Inr r \<and>
              r_changePercent24h r = Num 0"
proof (cases "activeWallets db userId = []")
  case True
  then show ?thesis by (simp add: getBalances_empty)
next
  case False
  with assms have p: "processBalancesWithNetworks (queryBalances db userId type) = Inr processed"
    and z: "snd (changeLoop (tokenRepository db)
                   (displayBalancesOf showZeroBalances processed) (Num 0, Num 0)) = Num 0"
    by simp_all
  show ?thesis
    unfolding getBalances_success [OF False p refl refl refl]
    by (simp add: changePercentOf_zero [OF z])
qed

theorem change_percent_zero_witness:
  "processBalancesWithNetworks (queryBalances dogeDb ''u1'' None) = Inr [dogeCombined] \<and>
   snd (changeLoop (tokenRepository dogeDb) (displayBalancesOf True [dogeCombined])
          (Num 0, Num 0)) = Num 0 \<and>
   (\<exists>r. getBalances dogeDb ''u1'' None firstPage True = Inr r \<and> r_changePercent24h r = Num 0) \<and>
   activeWallets noWalletDb ''u1'' = [] \<and>
   (\<exists>r. getBalances noWalletDb ''u1'' None firstPage True = Inr r \<and>
        r_changePercent24h r = Num 0)"
proof -
  have p: "processBalancesWithNetworks (queryBalances dogeDb ''u1'' None) = Inr [dogeCombined]"
    by (simp add: doge_query process_doge)
  have z: "snd (changeLoop (tokenRepository dogeDb) (displayBalancesOf True [dogeCombined])
      (Num 0, Num 0)) = Num 0"
    by (simp add: doge_change)
  have n: "activeWallets noWalletDb ''u1'' = []" by (simp add: activeWallets_def noWalletDb_def)
  from p z have a: "activeWallets dogeDb ''u1'' = [] \<or>
      (processBalancesWithNetworks (queryBalances dogeDb ''u1'' None) = Inr [dogeCombined] \<and>
       snd (changeLoop (tokenRepository dogeDb) (displayBalancesOf True [dogeCombined])
              (Num 0, Num 0)) = Num 0)"
    by simp
  from n have b: "activeWallets noWalletDb ''u1'' = [] \<or>
      (processBalancesWithNetworks (queryBalances noWalletDb ''u1'' None) = Inr [] \<and>
       snd (changeLoop (tokenRepository noWalletDb) (displayBalancesOf True [])
              (Num 0, Num 0)) = Num 0)"
    by simp
  from change_percent_zero [OF a, of firstPage] change_percent_zero [OF b, of firstPage] p z n
  show ?thesis by blast
qed




text \<open>
  C8, as amended. When a balance record that the query returns has an amount that is a
  non-empty malformed decimal string, getBalances fails: the error of the constructor
  leaves the call, and no response is built. An empty amount is read as '0': the loop
  treats the record like one whose amount is the string '0'.
\<close>

theorem malformed_amount_fails:
  assumes "b \<in> set (queryBalances db userId type)"
    and "wb_balance b \<noteq> []" and "isl (new_Decimal (wb_balance b))"
  shows "isl (getBalances db userId type pagination showZeroBalances) \<and>
         (\<forall>m. combineBalance (b\<lparr>wb_balance := []\<rparr>) m
                = combineBalance (b\<lparr>wb_balance := ''0''\<rparr>) m)"
proof -
  have w: "activeWallets db userId \<noteq> []" using assms(1) by (rule query_wallets)
  have "\<not> wellFormed b" using assms(2,3) by (rule malformed_amount_not_wellFormed)
  with assms(1) have "isl (processBalancesWithNetworks (queryBalances db userId type))"
    by (intro process_malformed) blast
  then obtain e where "processBalancesWithNetworks (queryBalances db userId type) = Inl e"
    by (auto simp: isl_def)
  with w have "getBalances db userId type pagination showZeroBalances = Inl e"
    by (rule getBalances_error)
  then show ?thesis by (simp add: combineBalance_empty_amount)
qed

theorem malformed_amount_fails_witness:
  "malformedBtc \<in> set (queryBalances malformedDb ''u1'' None) \<and>
   wb_balance malformedBtc \<noteq> [] \<and>
   isl (new_Decimal (wb_balance malformedBtc)) \<and>
   isl (getBalances malformedDb ''u1'' None firstPage True) \<and>
   getBalances malformedDb ''u1'' None firstPage True = Inl (DecimalError ''abc'')"
proof -
  have m: "malformedBtc \<in> set (queryBalances malformedDb ''u1'' None)"
    by (simp add: malformed_query)
  have n: "wb_balance malformedBtc \<noteq> []" by (simp add: malformedBtc_def)
  have i: "isl (new_Decimal (wb_balance malformedBtc))"
    by (simp add: malformedBtc_def parse_malformed)
  have w: "activeWallets malformedDb ''u1'' \<noteq> []" by (simp add: malformed_wallets)
  have e: "getBalances malformedDb ''u1'' None firstPage True = Inl (DecimalError ''abc'')"
    by (rule getBalances_error [OF w]) (simp add: malformed_query process_malformedBtc)
  from malformed_amount_fails [OF m n i, of firstPage True] m n i e show ?thesis by blast
qed

text \<open>
  The claim as stated fails for the empty string, which the constructor rejects: the
  default of line 361 replaces it, and getBalances returns the entry with balance 0.
\<close>

theorem empty_amount_counterexample:
  "wb_balance emptyBtc = '''' \<and>
   new_Decimal '''' = Inl (DecimalError '''') \<and>
   emptyBtc \<in> set (queryBalances emptyAmountDb ''u1'' None) \<and>
   map_sum id (\<lambda>r. map cb_balance (r_balances r))
     (getBalances emptyAmountDb ''u1'' None firstPage True) = Inr [0]"
proof -
  have b: "wb_balance emptyBtc = ''''" by (simp add: emptyBtc_def)
  have m: "emptyBtc \<in> set (queryBalances emptyAmountDb ''u1'' None)"
    by (simp add: emptyAmount_query)
  have w: "activeWallets emptyAmountDb ''u1'' \<noteq> []" by (simp add: emptyAmount_wallets)
  have p: "processBalancesWithNetworks (queryBalances emptyAmountDb ''u1'' None)
      = Inr [emptyBtcCombined]"
    by (simp add: emptyAmount_query process_emptyBtc)
  have d: "[emptyBtcCombined] = displayBalancesOf True [emptyBtcCombined]"
    by (simp add: displayBalancesOf_def)
  have g: "map_sum id (\<lambda>r. map cb_balance (r_balances r))
      (getBalances emptyAmountDb ''u1'' None firstPage True) = Inr [0]"
    unfolding getBalances_success [OF w p d refl refl]
    by (simp add: firstPage_def slice_first_page emptyBtcCombined_def)
  from b parse_malformed(2) m g show ?thesis by blast
qed

text \<open>
  C9. The merge key baseSymbol + '_' + type is injective on the pairs of a base symbol
  and a balance type, for every base symbol. In a result of processBalancesWithNetworks no
  two entries have the same pair, the network contributions of an entry are those of
  exactly the records with its base symbol and its balance type, and every record has its
  entry; a spot and a funding holding of one asset are never merged.
\<close>

theorem merge_key_injective:
  "(mergeKey b1 = mergeKey b2 \<longleftrightarrow>
      tk_baseSymbol (wb_token b1) = tk_baseSymbol (wb_token b2) \<and> wb_type b1 = wb_type b2) \<and>
   (processBalancesWithNetworks balances = Inr out \<longrightarrow>
      distinct (map (\<lambda>e. (cb_baseSymbol e, cb_type e)) out) \<and>
      (\<forall>e\<in>set out.
         cb_networks e
           = map contributionOf (filter (sameAsset (cb_baseSymbol e) (cb_type e)) balances)) \<and>
      (\<forall>b\<in>set balances. \<exists>e\<in>set out. sameAsset (cb_baseSymbol e) (cb_type e) b))"
proof (intro conjI impI ballI)
  show "mergeKey b1 = mergeKey b2 \<longleftrightarrow>
      tk_baseSymbol (wb_token b1) = tk_baseSymbol (wb_token b2) \<and> wb_type b1 = wb_type b2"
    by (rule mergeKey_eq_iff)
next
  assume "processBalancesWithNetworks balances = Inr out"
  then show "distinct (map (\<lambda>e. (cb_baseSymbol e, cb_type e)) out)"
    by (rule distinct_assets)
next
  fix e assume "processBalancesWithNetworks balances = Inr out" and "e \<in> set out"
  then show "cb_networks e
      = map contributionOf (filter (sameAsset (cb_baseSymbol e) (cb_type e)) balances)"
    by (rule entry_networks)
next
  fix b assume p: "processBalancesWithNetworks balances = Inr out" and b: "b \<in> set balances"
  from p b obtain e where "e \<in> set out"
    and "cb_baseSymbol e = tk_baseSymbol (wb_token b)" "cb_type e = wb_type b"
    by (rule record_entry)
  then show "\<exists>e\<in>set out. sameAsset (cb_baseSymbol e) (cb_type e) b"
    unfolding sameAsset_def by metis
qed

theorem merge_key_injective_witness:
  "mergeKey usdtOnEthereum = mergeKey usdtOnTron \<and>
   processBalancesWithNetworks [usdtOnEthereum, usdtOnTron] = Inr [usdtCombined] \<and>
   distinct (map (\<lambda>e. (cb_baseSymbol e, cb_type e)) [usdtCombined]) \<and>
   cb_networks usdtCombined
     = map contributionOf
         (filter (sameAsset (cb_baseSymbol usdtCombined) (cb_type usdtCombined))
            [usdtOnEthereum, usdtOnTron]) \<and>
   (\<exists>e\<in>set [usdtCombined]. sameAsset (cb_baseSymbol e) (cb_type e) usdtOnTron)"
proof -
  have same: "tk_baseSymbol (wb_token usdtOnEthereum) = tk_baseSymbol (wb_token usdtOnTron) \<and>
      wb_type usdtOnEthereum = wb_type usdtOnTron"
    by (simp add: usdtOnEthereum_def usdtOnTron_def usdtEthereum_def usdtTron_def)
  have m: "usdtCombined \<in> set [usdtCombined]" "usdtOnTron \<in> set [usdtOnEthereum, usdtOnTron]"
    by simp_all
  from merge_key_injective [of usdtOnEthereum usdtOnTron "[usdtOnEthereum, usdtOnTron]"
      "[usdtCombined]"] same process_usdt m
  show ?thesis by blast
qed

text \<open>
  C10, as amended. In the response of a successful getBalances call for a user with at
  least one active wallet, the field total is spotTotal + fundingTotal, a monetary value,
  and the number of filtered entries is reported as pagination.total. For a user without
  active wallets the response has total 0 and pagination.total 0 and carries no spotTotal
  and no fundingTotal.
\<close>

theorem total_is_sum_of_type_totals:
  assumes "getBalances db userId type pagination showZeroBalances = Inr r"
  shows "(activeWallets db userId \<noteq> [] \<longrightarrow>
           (\<exists>spotTotal fundingTotal processed.
              r_spotTotal r = Some spotTotal \<and> r_fundingTotal r = Some fundingTotal \<and>
              r_total r = num_add spotTotal fundingTotal \<and>
              processBalancesWithNetworks (queryBalances db userId type) = Inr processed \<and>
              pg_total (r_pagination r) = length (displayBalancesOf showZeroBalances processed))) \<and>
         (activeWallets db userId = [] \<longrightarrow>
            r_total r = Num 0 \<and> r_spotTotal r = None \<and> r_fundingTotal r = None \<and>
            pg_total (r_pagination r) = 0)"
  using assms
proof (cases rule: getBalances_Inr_cases)
  case 1
  with assms show ?thesis by (auto simp: getBalances_empty)
next
  case (2 processed)
  from assms show ?thesis
    unfolding getBalances_success [OF 2 refl refl refl]
    using 2 by auto
qed

theorem total_is_sum_of_type_totals_witness:
  "getBalances tetherDb ''u1'' None firstPage True = Inr tetherResponse \<and>
   activeWallets tetherDb ''u1'' \<noteq> [] \<and>
   (\<exists>spotTotal fundingTotal processed.
      r_spotTotal tetherResponse = Some spotTotal \<and>
      r_fundingTotal tetherResponse = Some fundingTotal \<and>
      r_total tetherResponse = num_add spotTotal fundingTotal \<and>
      processBalancesWithNetworks (queryBalances tetherDb ''u1'' None) = Inr processed \<and>
      pg_total (r_pagination tetherResponse) = length (displayBalancesOf True processed)) \<and>
   getBalances noWalletDb ''u1'' None firstPage True = Inr noWalletResponse \<and>
   activeWallets noWalletDb ''u1'' = [] \<and>
   r_total noWalletResponse = Num 0 \<and> r_spotTotal noWalletResponse = None"
proof -
  have w: "activeWallets tetherDb ''u1'' \<noteq> []" by (simp add: tether_wallets)
  have n: "activeWallets noWalletDb ''u1'' = []" by (simp add: activeWallets_def noWalletDb_def)
  from total_is_sum_of_type_totals [OF getBalances_tether]
    total_is_sum_of_type_totals [OF getBalances_noWallet] w n getBalances_tether
    getBalances_noWallet
  show ?thesis by blast
qed

text \<open>
  The claim as stated fails for a user without active wallets: the early return builds a
  response in which spotTotal and fundingTotal are absent, so total is not their sum.
\<close>

theorem total_without_wallets_counterexample:
  "getBalances noWalletDb ''u1'' None firstPage True = Inr noWalletResponse \<and>
   r_total noWalletResponse = Num 0 \<and>
   r_spotTotal noWalletResponse = None \<and>
   r_fundingTotal noWalletResponse = None"
  using getBalances_noWallet by (simp add: noWalletResponse_def)

end
